theory Spec2Isabelle
  imports Main
begin

section \<open>The metric catalog\<close>

text \<open>
  The module \<^verbatim>\<open>memobase_server/telemetry/open_telemetry.py\<close> declares three Python
  enums. Each member has a name (the identifier), a value (the string assigned to it) and
  two methods, \<^verbatim>\<open>get_description\<close> and \<^verbatim>\<open>get_metric_name\<close>. Iterating over an
  enum class yields its members in the order of their declaration.
\<close>

datatype exn =
  RuntimeError string
| KeyError string
| AttributeError string
| OSError int
| OtherError string

datatype CounterMetricName =
  REQUEST | HEALTHCHECK | LLM_INVOCATIONS | LLM_TOKENS_INPUT | LLM_TOKENS_OUTPUT

datatype HistogramMetricName = LLM_LATENCY_MS | REQUEST_LATENCY_MS

datatype GaugeMetricName = INPUT_TOKEN_COUNT | OUTPUT_TOKEN_COUNT

definition CounterMetricName_members :: "CounterMetricName list" where
  "CounterMetricName_members =
     [REQUEST, HEALTHCHECK, LLM_INVOCATIONS, LLM_TOKENS_INPUT, LLM_TOKENS_OUTPUT]"

definition HistogramMetricName_members :: "HistogramMetricName list" where
  "HistogramMetricName_members = [LLM_LATENCY_MS, REQUEST_LATENCY_MS]"

definition GaugeMetricName_members :: "GaugeMetricName list" where
  "GaugeMetricName_members = [INPUT_TOKEN_COUNT, OUTPUT_TOKEN_COUNT]"

fun CounterMetricName_name :: "CounterMetricName \<Rightarrow> string" where
  "CounterMetricName_name REQUEST = ''REQUEST''"
| "CounterMetricName_name HEALTHCHECK = ''HEALTHCHECK''"
| "CounterMetricName_name LLM_INVOCATIONS = ''LLM_INVOCATIONS''"
| "CounterMetricName_name LLM_TOKENS_INPUT = ''LLM_TOKENS_INPUT''"
| "CounterMetricName_name LLM_TOKENS_OUTPUT = ''LLM_TOKENS_OUTPUT''"

fun CounterMetricName_value :: "CounterMetricName \<Rightarrow> string" where
  "CounterMetricName_value REQUEST = ''requests_total''"
| "CounterMetricName_value HEALTHCHECK = ''healthcheck_total''"
| "CounterMetricName_value LLM_INVOCATIONS = ''llm_invocations_total''"
| "CounterMetricName_value LLM_TOKENS_INPUT = ''llm_tokens_input_total''"
| "CounterMetricName_value LLM_TOKENS_OUTPUT = ''llm_tokens_output_total''"

fun HistogramMetricName_name :: "HistogramMetricName \<Rightarrow> string" where
  "HistogramMetricName_name LLM_LATENCY_MS = ''LLM_LATENCY_MS''"
| "HistogramMetricName_name REQUEST_LATENCY_MS = ''REQUEST_LATENCY_MS''"

fun HistogramMetricName_value :: "HistogramMetricName \<Rightarrow> string" where
  "HistogramMetricName_value LLM_LATENCY_MS = ''llm_latency''"
| "HistogramMetricName_value REQUEST_LATENCY_MS = ''request_latency''"

fun GaugeMetricName_name :: "GaugeMetricName \<Rightarrow> string" where
  "GaugeMetricName_name INPUT_TOKEN_COUNT = ''INPUT_TOKEN_COUNT''"
| "GaugeMetricName_name OUTPUT_TOKEN_COUNT = ''OUTPUT_TOKEN_COUNT''"

fun GaugeMetricName_value :: "GaugeMetricName \<Rightarrow> string" where
  "GaugeMetricName_value INPUT_TOKEN_COUNT = ''input_token_count_per_call''"
| "GaugeMetricName_value OUTPUT_TOKEN_COUNT = ''output_token_count_per_call''"

text \<open>
  \<^verbatim>\<open>str(member)\<close> of a plain enum member is the class name, a dot and the member's
  name; f-strings format a member this way.
\<close>

definition CounterMetricName_str :: "CounterMetricName \<Rightarrow> string" where
  "CounterMetricName_str self = ''CounterMetricName.'' @ CounterMetricName_name self"

definition HistogramMetricName_str :: "HistogramMetricName \<Rightarrow> string" where
  "HistogramMetricName_str self = ''HistogramMetricName.'' @ HistogramMetricName_name self"

definition GaugeMetricName_str :: "GaugeMetricName \<Rightarrow> string" where
  "GaugeMetricName_str self = ''GaugeMetricName.'' @ GaugeMetricName_name self"

subsection \<open>get_description\<close>

text \<open>
  Each \<^verbatim>\<open>get_description\<close> builds a dict literal and subscripts it with
  \<^verbatim>\<open>self\<close>. Subscripting a dict with a key it lacks raises \<^verbatim>\<open>KeyError\<close>, so
  the lookup is modelled with that branch; that it is never taken is a theorem below.
\<close>

definition CounterMetricName_descriptions :: "(CounterMetricName \<times> string) list" where
  "CounterMetricName_descriptions =
     [(REQUEST, ''Total number of requests to the memobase server''),
      (HEALTHCHECK, ''Total number of healthcheck requests to the memobase server''),
      (LLM_INVOCATIONS, ''Total number of LLM invocations''),
      (LLM_TOKENS_INPUT, ''Total number of input tokens''),
      (LLM_TOKENS_OUTPUT, ''Total number of output tokens'')]"

definition CounterMetricName_get_description :: "CounterMetricName \<Rightarrow> exn + string" where
  "CounterMetricName_get_description self =
     (case map_of CounterMetricName_descriptions self of
        None \<Rightarrow> Inl (KeyError (CounterMetricName_str self))
      | Some d \<Rightarrow> Inr d)"

definition HistogramMetricName_descriptions :: "(HistogramMetricName \<times> string) list" where
  "HistogramMetricName_descriptions =
     [(LLM_LATENCY_MS, ''Latency of the LLM in milliseconds''),
      (REQUEST_LATENCY_MS, ''Latency of the request in milliseconds'')]"

definition HistogramMetricName_get_description :: "HistogramMetricName \<Rightarrow> exn + string" where
  "HistogramMetricName_get_description self =
     (case map_of HistogramMetricName_descriptions self of
        None \<Rightarrow> Inl (KeyError (HistogramMetricName_str self))
      | Some d \<Rightarrow> Inr d)"

definition GaugeMetricName_descriptions :: "(GaugeMetricName \<times> string) list" where
  "GaugeMetricName_descriptions =
     [(INPUT_TOKEN_COUNT, ''Number of input tokens per call''),
      (OUTPUT_TOKEN_COUNT, ''Number of output tokens per call'')]"

definition GaugeMetricName_get_description :: "GaugeMetricName \<Rightarrow> exn + string" where
  "GaugeMetricName_get_description self =
     (case map_of GaugeMetricName_descriptions self of
        None \<Rightarrow> Inl (KeyError (GaugeMetricName_str self))
      | Some d \<Rightarrow> Inr d)"

subsection \<open>get_metric_name\<close>

definition CounterMetricName_get_metric_name :: "CounterMetricName \<Rightarrow> string" where
  "CounterMetricName_get_metric_name self = ''memobase_server_'' @ CounterMetricName_value self"

definition HistogramMetricName_get_metric_name :: "HistogramMetricName \<Rightarrow> string" where
  "HistogramMetricName_get_metric_name self =
     ''memobase_server_'' @ HistogramMetricName_value self"

definition GaugeMetricName_get_metric_name :: "GaugeMetricName \<Rightarrow> string" where
  "GaugeMetricName_get_metric_name self = ''memobase_server_'' @ GaugeMetricName_value self"

subsection \<open>A metric identity of any of the three enums\<close>

text \<open>
  The registry's keys and the arguments of the record operations are members of any of
  the three enums (\<^verbatim>\<open>CounterMetricName | HistogramMetricName | GaugeMetricName\<close>).
  A method call on such a value dispatches on the member's class.
\<close>

datatype MetricName =
  CounterName CounterMetricName
| HistogramName HistogramMetricName
| GaugeName GaugeMetricName

fun get_metric_name :: "MetricName \<Rightarrow> string" where
  "get_metric_name (CounterName c) = CounterMetricName_get_metric_name c"
| "get_metric_name (HistogramName h) = HistogramMetricName_get_metric_name h"
| "get_metric_name (GaugeName g) = GaugeMetricName_get_metric_name g"

fun get_description :: "MetricName \<Rightarrow> exn + string" where
  "get_description (CounterName c) = CounterMetricName_get_description c"
| "get_description (HistogramName h) = HistogramMetricName_get_description h"
| "get_description (GaugeName g) = GaugeMetricName_get_description g"

fun MetricName_value :: "MetricName \<Rightarrow> string" where
  "MetricName_value (CounterName c) = CounterMetricName_value c"
| "MetricName_value (HistogramName h) = HistogramMetricName_value h"
| "MetricName_value (GaugeName g) = GaugeMetricName_value g"

fun MetricName_str :: "MetricName \<Rightarrow> string" where
  "MetricName_str (CounterName c) = CounterMetricName_str c"
| "MetricName_str (HistogramName h) = HistogramMetricName_str h"
| "MetricName_str (GaugeName g) = GaugeMetricName_str g"

definition catalog :: "MetricName list" where
  "catalog =
     map CounterName CounterMetricName_members
     @ map HistogramName HistogramMetricName_members
     @ map GaugeName GaugeMetricName_members"

section \<open>Instruments and the meter\<close>

text \<open>
  The instruments (\<^verbatim>\<open>Counter\<close>, \<^verbatim>\<open>Histogram\<close>, \<^verbatim>\<open>Gauge\<close>) and the meter
  that creates them are objects of the OpenTelemetry SDK, which the module imports. The
  model keeps of an instrument the arguments it was created with and the sequence of
  measurements the module has handed to it; how the SDK aggregates them is outside the
  module. The measured value is passed on unexamined, so its type is a parameter.

  An instrument's class decides which method it has: a \<^verbatim>\<open>Counter\<close> has
  \<^verbatim>\<open>add\<close>, a \<^verbatim>\<open>Histogram\<close> has \<^verbatim>\<open>record\<close>, a \<^verbatim>\<open>Gauge\<close> has
  \<^verbatim>\<open>set\<close>, and none has another's. Calling a method an object lacks raises
  \<^verbatim>\<open>AttributeError\<close>.
\<close>

type_synonym attributes = "(string \<rightharpoonup> string) option"

record 'v instrument_state =
  instr_name :: string
  instr_unit :: string
  instr_description :: string
  measurements :: "('v \<times> attributes) list"

datatype 'v instrument =
  Counter "'v instrument_state"
| Histogram "'v instrument_state"
| Gauge "'v instrument_state"

datatype kind = CounterKind | HistogramKind | GaugeKind

fun instrument_kind :: "'v instrument \<Rightarrow> kind" where
  "instrument_kind (Counter _) = CounterKind"
| "instrument_kind (Histogram _) = HistogramKind"
| "instrument_kind (Gauge _) = GaugeKind"

fun metric_kind :: "MetricName \<Rightarrow> kind" where
  "metric_kind (CounterName _) = CounterKind"
| "metric_kind (HistogramName _) = HistogramKind"
| "metric_kind (GaugeName _) = GaugeKind"

fun state_of :: "'v instrument \<Rightarrow> 'v instrument_state" where
  "state_of (Counter st) = st"
| "state_of (Histogram st) = st"
| "state_of (Gauge st) = st"

definition observe :: "'v \<Rightarrow> attributes \<Rightarrow> 'v instrument_state \<Rightarrow> 'v instrument_state" where
  "observe v attrs st = st\<lparr>measurements := measurements st @ [(v, attrs)]\<rparr>"

text \<open>
  The three methods. Each returns the updated instrument, or the exception of a
  missing attribute.
\<close>

fun add :: "'v instrument \<Rightarrow> 'v \<Rightarrow> attributes \<Rightarrow> exn + 'v instrument" where
  "add (Counter st) v attrs = Inr (Counter (observe v attrs st))"
| "add _ v attrs = Inl (AttributeError ''add'')"

fun record_value :: "'v instrument \<Rightarrow> 'v \<Rightarrow> attributes \<Rightarrow> exn + 'v instrument" where
  "record_value (Histogram st) v attrs = Inr (Histogram (observe v attrs st))"
| "record_value _ v attrs = Inl (AttributeError ''record'')"

fun set_value :: "'v instrument \<Rightarrow> 'v \<Rightarrow> attributes \<Rightarrow> exn + 'v instrument" where
  "set_value (Gauge st) v attrs = Inr (Gauge (observe v attrs st))"
| "set_value _ v attrs = Inl (AttributeError ''set'')"

text \<open>
  A meter is an object with the methods \<^verbatim>\<open>create_counter\<close>,
  \<^verbatim>\<open>create_histogram\<close> and \<^verbatim>\<open>create_gauge\<close>, each taking a name, a unit and a
  description. By the Meter interface the first returns a Counter, the second a
  Histogram and the third a Gauge; any of them may raise instead. What a given meter
  does is not the module's to decide, so the three methods are fields of the model.
\<close>

record 'v Meter =
  create_counter :: "string \<Rightarrow> string \<Rightarrow> string \<Rightarrow> exn + 'v instrument_state"
  create_histogram :: "string \<Rightarrow> string \<Rightarrow> string \<Rightarrow> exn + 'v instrument_state"
  create_gauge :: "string \<Rightarrow> string \<Rightarrow> string \<Rightarrow> exn + 'v instrument_state"

section \<open>TelemetryManager\<close>

record 'v TelemetryManager =
  service_name :: string
  prometheus_port :: int
  metrics :: "MetricName \<rightharpoonup> 'v instrument"
  meter :: "'v Meter option"

text \<open>
  The field \<open>meter\<close> is the attribute \<^verbatim>\<open>_meter\<close>; \<open>None\<close> is Python's
  \<^verbatim>\<open>None\<close>. A method either returns or raises, and in both cases leaves the manager
  in some state, so every method gives back the outcome together with the manager.
\<close>

datatype outcome = Returned | Raised exn

definition TelemetryManager_init :: "string option \<Rightarrow> int option \<Rightarrow> 'v TelemetryManager" where
  "TelemetryManager_init service_name_arg prometheus_port_arg =
     \<lparr> service_name = (case service_name_arg of None \<Rightarrow> ''memobase-server'' | Some s \<Rightarrow> s),
       prometheus_port = (case prometheus_port_arg of None \<Rightarrow> 9464 | Some p \<Rightarrow> p),
       metrics = Map.empty,
       meter = None \<rparr>"

subsection \<open>setup_metrics\<close>

text \<open>
  A \<^verbatim>\<open>for\<close> loop over a list whose body may raise: the loop stops at the first
  iteration that raises, with the state that iteration left.
\<close>

fun for_each :: "'a list \<Rightarrow> ('a \<Rightarrow> 's \<Rightarrow> outcome \<times> 's) \<Rightarrow> 's \<Rightarrow> outcome \<times> 's" where
  "for_each [] body s = (Returned, s)"
| "for_each (x # xs) body s =
     (case body x s of
        (Raised e, s') \<Rightarrow> (Raised e, s')
      | (Returned, s') \<Rightarrow> for_each xs body s')"

text \<open>
  The bodies of the three loops. The arguments of the call are evaluated first (the
  description lookup may raise), then the meter's method is called, then the result is
  stored under the key.
\<close>

definition counter_body ::
  "'v Meter \<Rightarrow> CounterMetricName \<Rightarrow> 'v TelemetryManager \<Rightarrow> outcome \<times> 'v TelemetryManager" where
  "counter_body mt metric self =
     (case CounterMetricName_get_description metric of
        Inl e \<Rightarrow> (Raised e, self)
      | Inr d \<Rightarrow>
          (case create_counter mt (CounterMetricName_get_metric_name metric) ''1'' d of
             Inl e \<Rightarrow> (Raised e, self)
           | Inr st \<Rightarrow>
               (Returned, self\<lparr>metrics := (metrics self)(CounterName metric \<mapsto> Counter st)\<rparr>)))"

definition histogram_body ::
  "'v Meter \<Rightarrow> HistogramMetricName \<Rightarrow> 'v TelemetryManager \<Rightarrow> outcome \<times> 'v TelemetryManager" where
  "histogram_body mt metric self =
     (case HistogramMetricName_get_description metric of
        Inl e \<Rightarrow> (Raised e, self)
      | Inr d \<Rightarrow>
          (case create_histogram mt (HistogramMetricName_get_metric_name metric) ''ms'' d of
             Inl e \<Rightarrow> (Raised e, self)
           | Inr st \<Rightarrow>
               (Returned, self\<lparr>metrics := (metrics self)(HistogramName metric \<mapsto> Histogram st)\<rparr>)))"

definition gauge_body ::
  "'v Meter \<Rightarrow> GaugeMetricName \<Rightarrow> 'v TelemetryManager \<Rightarrow> outcome \<times> 'v TelemetryManager" where
  "gauge_body mt metric self =
     (case GaugeMetricName_get_description metric of
        Inl e \<Rightarrow> (Raised e, self)
      | Inr d \<Rightarrow>
          (case create_gauge mt (GaugeMetricName_get_metric_name metric) ''1'' d of
             Inl e \<Rightarrow> (Raised e, self)
           | Inr st \<Rightarrow>
               (Returned, self\<lparr>metrics := (metrics self)(GaugeName metric \<mapsto> Gauge st)\<rparr>)))"

definition setup_metrics :: "'v TelemetryManager \<Rightarrow> outcome \<times> 'v TelemetryManager" where
  "setup_metrics self =
     (case meter self of
        None \<Rightarrow> (Raised (RuntimeError ''Call setup_telemetry() before setup_metrics()''), self)
      | Some mt \<Rightarrow>
          (case for_each CounterMetricName_members (counter_body mt) self of
             (Raised e, s1) \<Rightarrow> (Raised e, s1)
           | (Returned, s1) \<Rightarrow>
               (case for_each HistogramMetricName_members (histogram_body mt) s1 of
                  (Raised e, s2) \<Rightarrow> (Raised e, s2)
                | (Returned, s2) \<Rightarrow> for_each GaugeMetricName_members (gauge_body mt) s2)))"

subsection \<open>The record operations\<close>

definition increment_counter_metric ::
  "'v TelemetryManager \<Rightarrow> MetricName \<Rightarrow> 'v \<Rightarrow> attributes \<Rightarrow> outcome \<times> 'v TelemetryManager" where
  "increment_counter_metric self metric v attrs =
     (case metrics self metric of
        None \<Rightarrow>
          (Raised (KeyError (''Metric '' @ MetricName_str metric @ '' not initialized'')), self)
      | Some ins \<Rightarrow>
          (case add ins v attrs of
             Inl e \<Rightarrow> (Raised e, self)
           | Inr ins' \<Rightarrow> (Returned, self\<lparr>metrics := (metrics self)(metric \<mapsto> ins')\<rparr>)))"

definition record_histogram_metric ::
  "'v TelemetryManager \<Rightarrow> MetricName \<Rightarrow> 'v \<Rightarrow> attributes \<Rightarrow> outcome \<times> 'v TelemetryManager" where
  "record_histogram_metric self metric v attrs =
     (case metrics self metric of
        None \<Rightarrow>
          (Raised (KeyError (''Metric '' @ MetricName_str metric @ '' not initialized'')), self)
      | Some ins \<Rightarrow>
          (case record_value ins v attrs of
             Inl e \<Rightarrow> (Raised e, self)
           | Inr ins' \<Rightarrow> (Returned, self\<lparr>metrics := (metrics self)(metric \<mapsto> ins')\<rparr>)))"

definition set_gauge_metric ::
  "'v TelemetryManager \<Rightarrow> MetricName \<Rightarrow> 'v \<Rightarrow> attributes \<Rightarrow> outcome \<times> 'v TelemetryManager" where
  "set_gauge_metric self metric v attrs =
     (case metrics self metric of
        None \<Rightarrow>
          (Raised (KeyError (''Metric '' @ MetricName_str metric @ '' not initialized'')), self)
      | Some ins \<Rightarrow>
          (case set_value ins v attrs of
             Inl e \<Rightarrow> (Raised e, self)
           | Inr ins' \<Rightarrow> (Returned, self\<lparr>metrics := (metrics self)(metric \<mapsto> ins')\<rparr>)))"

subsection \<open>setup_telemetry\<close>

text \<open>
  \<^verbatim>\<open>str\<close> of a Python integer, for the port number in the warning.
\<close>

definition digit_char :: "nat \<Rightarrow> char" where
  "digit_char d = ''0123456789'' ! d"

fun str_nat :: "nat \<Rightarrow> string" where
  "str_nat n = (if n < 10 then [digit_char n] else str_nat (n div 10) @ [digit_char (n mod 10)])"

definition str_int :: "int \<Rightarrow> string" where
  "str_int i = (if i < 0 then CHR ''-'' # str_nat (nat (- i)) else str_nat (nat i))"

text \<open>
  \<^verbatim>\<open>setup_telemetry\<close> acts on the process outside the manager: it installs a meter
  provider built from a resource carrying the service name, starts the Prometheus HTTP
  server on the port, and may log a warning. These actions are recorded, in order, as
  events. The constructors of the resource, the reader and the provider and
  \<^verbatim>\<open>set_meter_provider\<close> are taken to return. What the outside answers is an input: \<open>start_http_server\<close> tells whether
  \<^verbatim>\<open>start_http_server(port)\<close> returns (\<open>None\<close>) or raises, and \<open>get_meter\<close> is the
  meter that \<^verbatim>\<open>metrics.get_meter(name)\<close> returns.
\<close>

datatype event =
  SetMeterProvider string
| StartHttpServer int
| LogWarning string

record 'v environment =
  start_http_server :: "int \<Rightarrow> exn option"
  get_meter :: "string \<Rightarrow> 'v Meter"

definition setup_telemetry ::
  "'v environment \<Rightarrow> 'v TelemetryManager \<Rightarrow> outcome \<times> 'v TelemetryManager \<times> event list" where
  "setup_telemetry env self =
     (let started = [SetMeterProvider (service_name self), StartHttpServer (prometheus_port self)];
          initialized = self\<lparr>meter := Some (get_meter env (service_name self))\<rparr>
      in case start_http_server env (prometheus_port self) of
           None \<Rightarrow> (Returned, initialized, started)
         | Some (OSError errno) \<Rightarrow>
             if errno = 48 then
               (Returned, initialized,
                started @ [LogWarning (''Prometheus HTTP server already running on port ''
                                        @ str_int (prometheus_port self))])
             else (Raised (OSError errno), self, started)
         | Some e \<Rightarrow> (Raised e, self, started))"

text \<open>
  The number the operating system reports in \<^verbatim>\<open>OSError.errno\<close> when a bind fails
  because the address is already in use (\<^verbatim>\<open>errno.EADDRINUSE\<close>) depends on the
  platform: 48 on macOS and the BSDs, 98 on Linux, 10048 on Windows.
\<close>

datatype platform = Darwin | Linux | Windows

fun EADDRINUSE :: "platform \<Rightarrow> int" where
  "EADDRINUSE Darwin = 48"
| "EADDRINUSE Linux = 98"
| "EADDRINUSE Windows = 10048"

subsection \<open>The module body\<close>

text \<open>
  The last three statements of the module run when it is imported: they construct the
  manager with the default arguments and call \<^verbatim>\<open>setup_telemetry\<close> and
  \<^verbatim>\<open>setup_metrics\<close> on it. An exception in either ends the import.
\<close>

definition telemetry_manager ::
  "'v environment \<Rightarrow> outcome \<times> 'v TelemetryManager \<times> event list" where
  "telemetry_manager env =
     (case setup_telemetry env (TelemetryManager_init None None) of
        (Raised e, tm, evs) \<Rightarrow> (Raised e, tm, evs)
      | (Returned, tm, evs) \<Rightarrow>
          (case setup_metrics tm of (out, tm') \<Rightarrow> (out, tm', evs)))"

section \<open>Specification vocabulary and sample inputs\<close>

text \<open>
  \<open>extended_on K s s'\<close>: the manager \<open>s'\<close> is \<open>s\<close> but for the registry, which
  holds an instrument of the matching kind at every identity in \<open>K\<close> and is as in
  \<open>s\<close> everywhere else.
\<close>

definition extended_on ::
  "MetricName set \<Rightarrow> 'v TelemetryManager \<Rightarrow> 'v TelemetryManager \<Rightarrow> bool" where
  "extended_on K s s' \<longleftrightarrow>
     service_name s' = service_name s \<and> prometheus_port s' = prometheus_port s
     \<and> meter s' = meter s
     \<and> (\<forall>k. k \<notin> K \<longrightarrow> metrics s' k = metrics s k)
     \<and> (\<forall>k. k \<in> K \<longrightarrow> (\<exists>ins. metrics s' k = Some ins \<and> instrument_kind ins = metric_kind k))"

text \<open>
  \<open>create_instrument mt k\<close> is what the right-hand side of the assignment
  \<^verbatim>\<open>self.metrics[metric] = self._meter.create_...(...)\<close> evaluates to for the identity
  \<open>k\<close> in the loop of \<open>k\<close>'s enum: the instrument the meter returns, or the exception
  raised. \<open>register_metric\<close> is one iteration of that loop, by identity.
\<close>

fun create_instrument :: "'v Meter \<Rightarrow> MetricName \<Rightarrow> exn + 'v instrument" where
  "create_instrument mt (CounterName c) =
     (case CounterMetricName_get_description c of
        Inl e \<Rightarrow> Inl e
      | Inr d \<Rightarrow>
          (case create_counter mt (CounterMetricName_get_metric_name c) ''1'' d of
             Inl e \<Rightarrow> Inl e
           | Inr st \<Rightarrow> Inr (Counter st)))"
| "create_instrument mt (HistogramName h) =
     (case HistogramMetricName_get_description h of
        Inl e \<Rightarrow> Inl e
      | Inr d \<Rightarrow>
          (case create_histogram mt (HistogramMetricName_get_metric_name h) ''ms'' d of
             Inl e \<Rightarrow> Inl e
           | Inr st \<Rightarrow> Inr (Histogram st)))"
| "create_instrument mt (GaugeName g) =
     (case GaugeMetricName_get_description g of
        Inl e \<Rightarrow> Inl e
      | Inr d \<Rightarrow>
          (case create_gauge mt (GaugeMetricName_get_metric_name g) ''1'' d of
             Inl e \<Rightarrow> Inl e
           | Inr st \<Rightarrow> Inr (Gauge st)))"

definition register_metric ::
  "'v Meter \<Rightarrow> MetricName \<Rightarrow> 'v TelemetryManager \<Rightarrow> outcome \<times> 'v TelemetryManager" where
  "register_metric mt k self =
     (case create_instrument mt k of
        Inl e \<Rightarrow> (Raised e, self)
      | Inr ins \<Rightarrow> (Returned, self\<lparr>metrics := (metrics self)(k \<mapsto> ins)\<rparr>))"

text \<open>
  Calls made on a manager one after another, each leaving the manager in the state the
  next one finds, whether it returned or raised.
\<close>

datatype 'v call =
  IncrementCounter MetricName 'v attributes
| RecordHistogram MetricName 'v attributes
| SetGauge MetricName 'v attributes
| SetupMetrics
| SetupTelemetry "'v environment"

fun do_call :: "'v call \<Rightarrow> 'v TelemetryManager \<Rightarrow> 'v TelemetryManager" where
  "do_call (IncrementCounter metric v attrs) self = snd (increment_counter_metric self metric v attrs)"
| "do_call (RecordHistogram metric v attrs) self = snd (record_histogram_metric self metric v attrs)"
| "do_call (SetGauge metric v attrs) self = snd (set_gauge_metric self metric v attrs)"
| "do_call SetupMetrics self = snd (setup_metrics self)"
| "do_call (SetupTelemetry env) self = fst (snd (setup_telemetry env self))"

text \<open>
  \<open>all_registered self\<close>: the registry holds, at every identity, an instrument of the
  identity's kind.
\<close>

definition all_registered :: "'v TelemetryManager \<Rightarrow> bool" where
  "all_registered self \<longleftrightarrow>
     (\<forall>k. \<exists>ins. metrics self k = Some ins \<and> instrument_kind ins = metric_kind k)"

text \<open>
  Sample meters: one whose methods always return a new instrument with no measurements,
  and one whose \<^verbatim>\<open>create_histogram\<close> raises.
\<close>

definition new_instrument :: "string \<Rightarrow> string \<Rightarrow> string \<Rightarrow> 'v instrument_state" where
  "new_instrument n u d =
     \<lparr> instr_name = n, instr_unit = u, instr_description = d, measurements = [] \<rparr>"

definition plain_meter :: "'v Meter" where
  "plain_meter =
     \<lparr> create_counter = (\<lambda>n u d. Inr (new_instrument n u d)),
       create_histogram = (\<lambda>n u d. Inr (new_instrument n u d)),
       create_gauge = (\<lambda>n u d. Inr (new_instrument n u d)) \<rparr>"

definition histogram_failing_meter :: "'v Meter" where
  "histogram_failing_meter =
     \<lparr> create_counter = (\<lambda>n u d. Inr (new_instrument n u d)),
       create_histogram = (\<lambda>n u d. Inl (OtherError ''create_histogram failed'')),
       create_gauge = (\<lambda>n u d. Inr (new_instrument n u d)) \<rparr>"

definition quiet_environment :: "'v environment" where
  "quiet_environment =
     \<lparr> start_http_server = (\<lambda>port. None), get_meter = (\<lambda>name. plain_meter) \<rparr>"

definition sample_manager :: "'v Meter \<Rightarrow> 'v TelemetryManager" where
  "sample_manager mt = (TelemetryManager_init None None)\<lparr>meter := Some mt\<rparr>"

section \<open>Properties of the catalog\<close>

lemma CounterMetricName_get_description_total:
  "\<exists>d. CounterMetricName_get_description c = Inr d \<and> d \<noteq> []"
  by (cases c) (simp_all add: CounterMetricName_get_description_def CounterMetricName_descriptions_def)

lemma HistogramMetricName_get_description_total:
  "\<exists>d. HistogramMetricName_get_description h = Inr d \<and> d \<noteq> []"
  by (cases h) (simp_all add: HistogramMetricName_get_description_def HistogramMetricName_descriptions_def)

lemma GaugeMetricName_get_description_total:
  "\<exists>d. GaugeMetricName_get_description g = Inr d \<and> d \<noteq> []"
  by (cases g) (simp_all add: GaugeMetricName_get_description_def GaugeMetricName_descriptions_def)

text \<open>
  Claim C7. Catalog lookup is total: for every member of each of the three enums,
  \<^verbatim>\<open>get_metric_name\<close> returns \<^verbatim>\<open>memobase_server_\<close> followed by the member's
  value, and \<^verbatim>\<open>get_description\<close> returns a non-empty description (the dict
  lookup never raises).
\<close>

theorem catalog_lookup_total:
  "get_metric_name m = ''memobase_server_'' @ MetricName_value m
   \<and> (\<exists>d. get_description m = Inr d \<and> d \<noteq> [])"
proof (cases m)
  case (CounterName c)
  then show ?thesis
    using CounterMetricName_get_description_total [of c]
    by (simp add: CounterMetricName_get_metric_name_def)
next
  case (HistogramName h)
  then show ?thesis
    using HistogramMetricName_get_description_total [of h]
    by (simp add: HistogramMetricName_get_metric_name_def)
next
  case (GaugeName g)
  then show ?thesis
    using GaugeMetricName_get_description_total [of g]
    by (simp add: GaugeMetricName_get_metric_name_def)
qed

lemma CounterMetricName_value_inj:
  "(CounterMetricName_value a = CounterMetricName_value b) = (a = b)"
  by (cases a; cases b) simp_all

lemma HistogramMetricName_value_inj:
  "(HistogramMetricName_value a = HistogramMetricName_value b) = (a = b)"
  by (cases a; cases b) simp_all

lemma GaugeMetricName_value_inj:
  "(GaugeMetricName_value a = GaugeMetricName_value b) = (a = b)"
  by (cases a; cases b) simp_all

lemma counter_histogram_values_differ:
  "CounterMetricName_value c \<noteq> HistogramMetricName_value h"
  by (cases c; cases h) simp_all

lemma counter_gauge_values_differ:
  "CounterMetricName_value c \<noteq> GaugeMetricName_value g"
  by (cases c; cases g) simp_all

lemma histogram_gauge_values_differ:
  "HistogramMetricName_value h \<noteq> GaugeMetricName_value g"
  by (cases h; cases g) simp_all

text \<open>
  Claim C6. Wire names are unique across the whole catalog: two identities, of the same
  enum or of different enums, have the same \<^verbatim>\<open>get_metric_name\<close> only if they are
  the same identity.
\<close>

theorem wire_names_unique:
  "(get_metric_name a = get_metric_name b) = (a = b)"
proof (cases a; cases b)
qed (simp_all add: CounterMetricName_get_metric_name_def HistogramMetricName_get_metric_name_def
      GaugeMetricName_get_metric_name_def CounterMetricName_value_inj HistogramMetricName_value_inj
      GaugeMetricName_value_inj counter_histogram_values_differ counter_gauge_values_differ
      histogram_gauge_values_differ counter_histogram_values_differ [symmetric]
      counter_gauge_values_differ [symmetric] histogram_gauge_values_differ [symmetric])

section \<open>Properties of setup_telemetry\<close>

lemma setup_telemetry_OSError:
  "start_http_server env (prometheus_port self) = Some (OSError errno) \<Longrightarrow>
   setup_telemetry env self =
     (if errno = 48
      then (Returned, self\<lparr>meter := Some (get_meter env (service_name self))\<rparr>,
            [SetMeterProvider (service_name self), StartHttpServer (prometheus_port self),
             LogWarning (''Prometheus HTTP server already running on port ''
                          @ str_int (prometheus_port self))])
      else (Raised (OSError errno), self,
            [SetMeterProvider (service_name self), StartHttpServer (prometheus_port self)]))"
  by (simp add: setup_telemetry_def)

lemma setup_telemetry_Returned:
  assumes "setup_telemetry env self = (Returned, self', evs)"
  shows "self' = self\<lparr>meter := Some (get_meter env (service_name self))\<rparr>
         \<and> take 2 evs = [SetMeterProvider (service_name self), StartHttpServer (prometheus_port self)]"
  using assms
  by (auto simp: setup_telemetry_def Let_def split: option.splits exn.splits if_splits)

text \<open>
  Claim C1, at the input where the code departs from it. On Linux a bind to an address
  already in use raises \<^verbatim>\<open>OSError\<close> with \<^verbatim>\<open>errno\<close> 98. The handler compares
  \<^verbatim>\<open>errno\<close> with the literal 48, so it takes the \<^verbatim>\<open>else\<close> branch: the error is
  raised again, no warning is logged and the meter handle stays unset.
\<close>

theorem setup_telemetry_linux_address_in_use:
  "setup_telemetry (env\<lparr>start_http_server := (\<lambda>port. Some (OSError (EADDRINUSE Linux)))\<rparr>) self
     = (Raised (OSError 98), self,
        [SetMeterProvider (service_name self), StartHttpServer (prometheus_port self)])"
  by (simp add: setup_telemetry_def)

section \<open>Properties of setup_metrics\<close>

text \<open>
  Claim C5. With the meter handle unset, \<^verbatim>\<open>setup_metrics\<close> raises
  \<^verbatim>\<open>RuntimeError\<close> and leaves the manager, and so the registry, as it was.
\<close>

theorem setup_metrics_needs_meter:
  "meter self = None \<Longrightarrow>
   setup_metrics self = (Raised (RuntimeError ''Call setup_telemetry() before setup_metrics()''), self)"
  by (simp add: setup_metrics_def)

theorem setup_metrics_needs_meter_witness:
  "meter (TelemetryManager_init None None :: int TelemetryManager) = None
   \<and> setup_metrics (TelemetryManager_init None None :: int TelemetryManager)
       = (Raised (RuntimeError ''Call setup_telemetry() before setup_metrics()''),
          TelemetryManager_init None None)"
  using setup_metrics_needs_meter [of "TelemetryManager_init None None :: int TelemetryManager"]
  by (simp add: TelemetryManager_init_def)

subsection \<open>The loops extend the registry along the catalog\<close>

lemma extended_on_refl: "extended_on {} s s"
  by (simp add: extended_on_def)

lemma extended_on_trans:
  "extended_on K s s' \<Longrightarrow> extended_on K' s' s'' \<Longrightarrow> extended_on (K \<union> K') s s''"
  unfolding extended_on_def by (intro conjI allI impI) (simp_all, metis)

lemma counter_body_Raised: "counter_body mt x s = (Raised e, s') \<Longrightarrow> s' = s"
  by (auto simp: counter_body_def split: sum.splits)

lemma counter_body_Returned:
  "counter_body mt x s = (Returned, s') \<Longrightarrow> extended_on {CounterName x} s s'"
  by (auto simp: counter_body_def extended_on_def split: sum.splits)

lemma histogram_body_Raised: "histogram_body mt x s = (Raised e, s') \<Longrightarrow> s' = s"
  by (auto simp: histogram_body_def split: sum.splits)

lemma histogram_body_Returned:
  "histogram_body mt x s = (Returned, s') \<Longrightarrow> extended_on {HistogramName x} s s'"
  by (auto simp: histogram_body_def extended_on_def split: sum.splits)

lemma gauge_body_Raised: "gauge_body mt x s = (Raised e, s') \<Longrightarrow> s' = s"
  by (auto simp: gauge_body_def split: sum.splits)

lemma gauge_body_Returned:
  "gauge_body mt x s = (Returned, s') \<Longrightarrow> extended_on {GaugeName x} s s'"
  by (auto simp: gauge_body_def extended_on_def split: sum.splits)

lemma for_each_prefix:
  assumes raised: "\<And>x s e s'. body x s = (Raised e, s') \<Longrightarrow> s' = s"
    and returned: "\<And>x s s'. body x s = (Returned, s') \<Longrightarrow> extended_on {f x} s s'"
  shows "for_each xs body s = (out, s') \<Longrightarrow>
         \<exists>n\<le>length xs. extended_on (f ` set (take n xs)) s s' \<and> (out = Returned \<longleftrightarrow> n = length xs)"
proof (induction xs arbitrary: s)
  case Nil
  then show ?case by (simp add: extended_on_refl)
next
  case (Cons x xs)
  obtain o1 s1 where b: "body x s = (o1, s1)" by (cases "body x s")
  show ?case
  proof (cases o1)
    case Returned
    with b Cons.prems have "for_each xs body s1 = (out, s')" by simp
    from Cons.IH [OF this] obtain n where n: "n \<le> length xs"
      "extended_on (f ` set (take n xs)) s1 s'" "out = Returned \<longleftrightarrow> n = length xs"
      by blast
    from returned b Returned have "extended_on {f x} s s1" by simp
    from extended_on_trans [OF this n(2)]
    have "extended_on (f ` set (take (Suc n) (x # xs))) s s'" by simp
    with n(1,3) show ?thesis
      by (intro exI [of _ "Suc n"]) simp
  next
    case (Raised e)
    with b Cons.prems have "out = Raised e" "s' = s1" by simp_all
    moreover from raised b Raised have "s1 = s" by simp
    ultimately show ?thesis
      by (intro exI [of _ 0]) (simp add: extended_on_refl)
  qed
qed

lemma extended_on_empty: "extended_on {} s s' \<Longrightarrow> s' = s"
  by (cases s; cases s') (auto simp: extended_on_def)

lemma counter_loop_prefix:
  assumes "for_each xs (counter_body mt) s = (out, s')"
  shows "\<exists>n\<le>length xs. extended_on (CounterName ` set (take n xs)) s s'
           \<and> (out = Returned \<longleftrightarrow> n = length xs)"
  using counter_body_Raised counter_body_Returned assms by (rule for_each_prefix)

lemma histogram_loop_prefix:
  assumes "for_each xs (histogram_body mt) s = (out, s')"
  shows "\<exists>n\<le>length xs. extended_on (HistogramName ` set (take n xs)) s s'
           \<and> (out = Returned \<longleftrightarrow> n = length xs)"
  using histogram_body_Raised histogram_body_Returned assms by (rule for_each_prefix)

lemma gauge_loop_prefix:
  assumes "for_each xs (gauge_body mt) s = (out, s')"
  shows "\<exists>n\<le>length xs. extended_on (GaugeName ` set (take n xs)) s s'
           \<and> (out = Returned \<longleftrightarrow> n = length xs)"
  using gauge_body_Raised gauge_body_Returned assms by (rule for_each_prefix)

lemma setup_metrics_prefix:
  assumes mt: "meter self = Some mt" and run: "setup_metrics self = (out, self')"
  shows "\<exists>n\<le>length catalog.
           extended_on (set (take n catalog)) self self' \<and> (out = Returned \<longleftrightarrow> n = length catalog)"
proof -
  let ?cs = CounterMetricName_members and ?hs = HistogramMetricName_members
    and ?gs = GaugeMetricName_members
  obtain o1 s1 where l1: "for_each ?cs (counter_body mt) self = (o1, s1)"
    by (cases "for_each ?cs (counter_body mt) self")
  from counter_loop_prefix [OF l1]
  obtain n1 where n1: "n1 \<le> length ?cs" "extended_on (CounterName ` set (take n1 ?cs)) self s1"
    "o1 = Returned \<longleftrightarrow> n1 = length ?cs"
    by blast
  show ?thesis
  proof (cases o1)
    case (Raised e)
    with run mt l1 have "out = Raised e" "self' = s1" by (simp_all add: setup_metrics_def)
    moreover from n1 Raised have "n1 < length ?cs" by simp
    ultimately show ?thesis using n1(2)
      by (intro exI [of _ n1]) (simp add: catalog_def take_map)
  next
    case Returned
    with n1 have e1: "extended_on (CounterName ` set ?cs) self s1" by simp
    obtain o2 s2 where l2: "for_each ?hs (histogram_body mt) s1 = (o2, s2)"
      by (cases "for_each ?hs (histogram_body mt) s1")
    from histogram_loop_prefix [OF l2]
    obtain n2 where n2: "n2 \<le> length ?hs" "extended_on (HistogramName ` set (take n2 ?hs)) s1 s2"
      "o2 = Returned \<longleftrightarrow> n2 = length ?hs"
      by blast
    have e2: "extended_on (CounterName ` set ?cs \<union> HistogramName ` set (take n2 ?hs)) self s2"
      by (rule extended_on_trans [OF e1 n2(2)])
    show ?thesis
    proof (cases o2)
      case (Raised e)
      with run mt l1 l2 Returned have "out = Raised e" "self' = s2"
        by (simp_all add: setup_metrics_def)
      moreover from n2 Raised have "n2 < length ?hs" by simp
      ultimately show ?thesis using e2
        by (intro exI [of _ "length ?cs + n2"]) (simp add: catalog_def take_map)
    next
      case Returned2: Returned
      with n2 e2 have e2': "extended_on (CounterName ` set ?cs \<union> HistogramName ` set ?hs) self s2"
        by simp
      from run mt l1 l2 Returned Returned2
      have l3: "for_each ?gs (gauge_body mt) s2 = (out, self')"
        by (simp add: setup_metrics_def)
      from gauge_loop_prefix [OF l3]
      obtain n3 where n3: "n3 \<le> length ?gs" "extended_on (GaugeName ` set (take n3 ?gs)) s2 self'"
        "out = Returned \<longleftrightarrow> n3 = length ?gs"
        by blast
      have "extended_on (CounterName ` set ?cs \<union> HistogramName ` set ?hs
              \<union> GaugeName ` set (take n3 ?gs)) self self'"
        by (rule extended_on_trans [OF e2' n3(2)])
      with n3(1,3) show ?thesis
        by (intro exI [of _ "length ?cs + length ?hs + n3"])
          (simp add: catalog_def take_map Un_assoc)
    qed
  qed
qed

lemma catalog_complete: "k \<in> set catalog"
proof (cases k)
  case (CounterName c)
  then show ?thesis by (cases c) (simp_all add: catalog_def CounterMetricName_members_def)
next
  case (HistogramName h)
  then show ?thesis by (cases h) (simp_all add: catalog_def HistogramMetricName_members_def)
next
  case (GaugeName g)
  then show ?thesis by (cases g) (simp_all add: catalog_def GaugeMetricName_members_def)
qed

subsection \<open>Runs on the sample meters\<close>

lemmas eval_defs =
  sample_manager_def TelemetryManager_init_def plain_meter_def histogram_failing_meter_def
  new_instrument_def setup_metrics_def counter_body_def histogram_body_def gauge_body_def
  CounterMetricName_members_def HistogramMetricName_members_def GaugeMetricName_members_def
  CounterMetricName_get_description_def HistogramMetricName_get_description_def
  GaugeMetricName_get_description_def CounterMetricName_descriptions_def
  HistogramMetricName_descriptions_def GaugeMetricName_descriptions_def
  CounterMetricName_get_metric_name_def HistogramMetricName_get_metric_name_def
  GaugeMetricName_get_metric_name_def

lemma plain_run: "fst (setup_metrics (sample_manager plain_meter)) = Returned"
  by (simp add: eval_defs)

lemma failing_run:
  "fst (setup_metrics (sample_manager histogram_failing_meter))
     = Raised (OtherError ''create_histogram failed'')"
  by (simp add: eval_defs)

text \<open>
  Claim C4. After a successful \<^verbatim>\<open>setup_metrics\<close>, every identity of the catalog is
  mapped to an instrument of the matching kind (counter identities to counters, histogram
  identities to histograms, gauge identities to gauges), and the registry's keys are
  exactly the catalog's identities.
\<close>

theorem setup_metrics_registers_catalog:
  assumes "setup_metrics self = (Returned, self')"
  shows "(\<exists>ins. metrics self' k = Some ins \<and> instrument_kind ins = metric_kind k)
         \<and> (dom (metrics self') = set catalog)"
proof -
  from assms obtain mt where mt: "meter self = Some mt"
    by (cases "meter self") (simp_all add: setup_metrics_def)
  from setup_metrics_prefix [OF mt assms]
  have ext: "extended_on (set catalog) self self'" by auto
  have all: "\<exists>ins. metrics self' k = Some ins \<and> instrument_kind ins = metric_kind k" for k
    using ext catalog_complete [of k] by (simp add: extended_on_def)
  have "dom (metrics self') = UNIV"
  proof (rule set_eqI)
    fix k from all [of k] show "k \<in> dom (metrics self') \<longleftrightarrow> k \<in> UNIV" by auto
  qed
  moreover have "set catalog = UNIV" using catalog_complete by auto
  ultimately show ?thesis using all by simp
qed

theorem setup_metrics_registers_catalog_witness:
  "setup_metrics (sample_manager plain_meter :: int TelemetryManager)
     = (Returned, snd (setup_metrics (sample_manager plain_meter)))
   \<and> (\<exists>ins. metrics (snd (setup_metrics (sample_manager plain_meter :: int TelemetryManager)))
               (HistogramName LLM_LATENCY_MS) = Some ins
             \<and> instrument_kind ins = HistogramKind)
   \<and> dom (metrics (snd (setup_metrics (sample_manager plain_meter :: int TelemetryManager))))
       = set catalog"
proof -
  let ?m = "sample_manager plain_meter :: int TelemetryManager"
  have run: "setup_metrics ?m = (Returned, snd (setup_metrics ?m))"
    using plain_run [where ?'a = int] by (simp add: prod_eq_iff)
  from setup_metrics_registers_catalog [OF run, of "HistogramName LLM_LATENCY_MS"] run
  show ?thesis by simp
qed

text \<open>
  Against claim C3 as stated: with a meter whose \<^verbatim>\<open>create_histogram\<close> raises, the
  call aborts after the counter loop. The registry, empty before, then holds the counters
  and neither histograms nor gauges: it is neither as before nor fully populated.
\<close>

theorem setup_metrics_half_populated:
  "fst (setup_metrics (sample_manager histogram_failing_meter :: int TelemetryManager))
     = Raised (OtherError ''create_histogram failed'')
   \<and> metrics (sample_manager histogram_failing_meter :: int TelemetryManager) (CounterName REQUEST)
     = None
   \<and> metrics (snd (setup_metrics (sample_manager histogram_failing_meter :: int TelemetryManager)))
       (CounterName REQUEST)
     = Some (Counter (new_instrument ''memobase_server_requests_total'' ''1''
          ''Total number of requests to the memobase server''))
   \<and> metrics (snd (setup_metrics (sample_manager histogram_failing_meter :: int TelemetryManager)))
       (GaugeName INPUT_TOKEN_COUNT)
     = None"
  by (simp add: eval_defs)

lemma counter_body_register:
  "counter_body mt = (\<lambda>c. register_metric mt (CounterName c))"
  by (intro ext) (simp add: counter_body_def register_metric_def split: sum.splits)

lemma histogram_body_register:
  "histogram_body mt = (\<lambda>h. register_metric mt (HistogramName h))"
  by (intro ext) (simp add: histogram_body_def register_metric_def split: sum.splits)

lemma gauge_body_register:
  "gauge_body mt = (\<lambda>g. register_metric mt (GaugeName g))"
  by (intro ext) (simp add: gauge_body_def register_metric_def split: sum.splits)

lemma for_each_map: "for_each (map f xs) body s = for_each xs (\<lambda>x. body (f x)) s"
  by (induction xs arbitrary: s) (simp_all split: prod.splits outcome.splits)

lemma for_each_append:
  "for_each (xs @ ys) body s =
     (case for_each xs body s of
        (Raised e, s') \<Rightarrow> (Raised e, s')
      | (Returned, s') \<Rightarrow> for_each ys body s')"
  by (induction xs arbitrary: s) (simp_all split: prod.splits outcome.splits)

lemma setup_metrics_for_each_catalog:
  "meter self = Some mt \<Longrightarrow> setup_metrics self = for_each catalog (register_metric mt) self"
  by (simp add: setup_metrics_def catalog_def for_each_append for_each_map
      counter_body_register histogram_body_register gauge_body_register
      split: prod.split outcome.split)

lemma for_each_register:
  assumes "distinct ks" and "for_each ks (register_metric mt) s = (out, s')"
  shows "\<exists>n\<le>length ks.
           (\<forall>i<n. \<exists>ins. create_instrument mt (ks ! i) = Inr ins \<and> metrics s' (ks ! i) = Some ins)
           \<and> (\<forall>k. k \<notin> set (take n ks) \<longrightarrow> metrics s' k = metrics s k)
           \<and> service_name s' = service_name s \<and> prometheus_port s' = prometheus_port s
           \<and> meter s' = meter s
           \<and> (if n = length ks then out = Returned
               else \<exists>e. create_instrument mt (ks ! n) = Inl e \<and> out = Raised e)"
  using assms
proof (induction ks arbitrary: s)
  case Nil
  then show ?case by simp
next
  case (Cons k ks)
  show ?case
  proof (cases "create_instrument mt k")
    case (Inl e)
    with Cons.prems(2) have "out = Raised e" "s' = s"
      by (simp_all add: register_metric_def)
    with Inl show ?thesis
      by (intro exI [of _ 0]) simp
  next
    case (Inr ins)
    let ?s1 = "s\<lparr>metrics := (metrics s)(k \<mapsto> ins)\<rparr>"
    from Inr have "register_metric mt k s = (Returned, ?s1)"
      by (simp add: register_metric_def)
    with Cons.prems(2) have run: "for_each ks (register_metric mt) ?s1 = (out, s')"
      by simp
    from Cons.prems(1) have dist: "distinct ks" and fresh: "k \<notin> set ks" by simp_all
    from Cons.IH [OF dist run] obtain n where n: "n \<le> length ks"
      and stored: "\<forall>i<n. \<exists>ins. create_instrument mt (ks ! i) = Inr ins
                            \<and> metrics s' (ks ! i) = Some ins"
      and rest: "\<forall>k'. k' \<notin> set (take n ks) \<longrightarrow> metrics s' k' = metrics ?s1 k'"
      and frame: "service_name s' = service_name ?s1" "prometheus_port s' = prometheus_port ?s1"
        "meter s' = meter ?s1"
      and result: "if n = length ks then out = Returned
                   else \<exists>e. create_instrument mt (ks ! n) = Inl e \<and> out = Raised e"
      by blast
    from fresh have "k \<notin> set (take n ks)" by (auto dest: in_set_takeD)
    with rest have at_k: "metrics s' k = Some ins" by simp
    have stored': "\<exists>ins. create_instrument mt ((k # ks) ! i) = Inr ins
                     \<and> metrics s' ((k # ks) ! i) = Some ins" if "i < Suc n" for i
    proof (cases i)
      case 0
      with Inr at_k show ?thesis by simp
    next
      case (Suc j)
      with that stored show ?thesis by simp
    qed
    have rest': "metrics s' k' = metrics s k'" if "k' \<notin> set (take (Suc n) (k # ks))" for k'
      using that rest by simp
    from result have result': "if Suc n = length (k # ks) then out = Returned
        else \<exists>e. create_instrument mt ((k # ks) ! Suc n) = Inl e \<and> out = Raised e"
      by simp
    from n stored' rest' frame result' show ?thesis
      by (intro exI [of _ "Suc n"]) simp
  qed
qed

lemma catalog_distinct: "distinct catalog"
  by (simp add: catalog_def CounterMetricName_members_def HistogramMetricName_members_def
      GaugeMetricName_members_def)

text \<open>
  Claim C3, amended. \<^verbatim>\<open>setup_metrics\<close> does not roll back. With the meter handle
  unset it raises \<^verbatim>\<open>RuntimeError\<close> and leaves the manager unchanged. Otherwise it goes
  through the catalog in order (counters, then histograms, then gauges) up to the first
  identity whose instrument cannot be created: every identity before that one is mapped to
  the instrument just created for it, also when the call then raises; every other identity
  is mapped as before the call; service name, port and meter handle are unchanged. The
  call returns exactly when no creation fails, and otherwise raises the exception of the
  first creation that failed.
\<close>

theorem setup_metrics_no_rollback:
  assumes "setup_metrics self = (out, self')"
  shows "(meter self = None \<longrightarrow>
            out = Raised (RuntimeError ''Call setup_telemetry() before setup_metrics()'')
            \<and> self' = self)
         \<and> (\<forall>mt. meter self = Some mt \<longrightarrow>
              (\<exists>n\<le>length catalog.
                 (\<forall>i<n. \<exists>ins. create_instrument mt (catalog ! i) = Inr ins
                              \<and> metrics self' (catalog ! i) = Some ins)
                 \<and> (\<forall>k. k \<notin> set (take n catalog) \<longrightarrow> metrics self' k = metrics self k)
                 \<and> service_name self' = service_name self
                 \<and> prometheus_port self' = prometheus_port self
                 \<and> meter self' = meter self
                 \<and> (if n = length catalog then out = Returned
                     else \<exists>e. create_instrument mt (catalog ! n) = Inl e \<and> out = Raised e)))"
proof (intro conjI allI impI)
  assume "meter self = None"
  with assms show "out = Raised (RuntimeError ''Call setup_telemetry() before setup_metrics()'')"
    and "self' = self"
    by (auto simp: setup_metrics_def)
next
  fix mt assume "meter self = Some mt"
  with assms have "for_each catalog (register_metric mt) self = (out, self')"
    by (simp add: setup_metrics_for_each_catalog)
  from for_each_register [OF catalog_distinct this]
  show "\<exists>n\<le>length catalog.
          (\<forall>i<n. \<exists>ins. create_instrument mt (catalog ! i) = Inr ins
                       \<and> metrics self' (catalog ! i) = Some ins)
          \<and> (\<forall>k. k \<notin> set (take n catalog) \<longrightarrow> metrics self' k = metrics self k)
          \<and> service_name self' = service_name self
          \<and> prometheus_port self' = prometheus_port self
          \<and> meter self' = meter self
          \<and> (if n = length catalog then out = Returned
              else \<exists>e. create_instrument mt (catalog ! n) = Inl e \<and> out = Raised e)" .
qed

theorem setup_metrics_no_rollback_witness:
  "setup_metrics (sample_manager histogram_failing_meter :: int TelemetryManager)
     = (Raised (OtherError ''create_histogram failed''),
        snd (setup_metrics (sample_manager histogram_failing_meter)))
   \<and> meter (sample_manager histogram_failing_meter :: int TelemetryManager)
       = Some histogram_failing_meter
   \<and> metrics (sample_manager histogram_failing_meter :: int TelemetryManager) (CounterName REQUEST)
       = None
   \<and> metrics (snd (setup_metrics (sample_manager histogram_failing_meter :: int TelemetryManager)))
         (CounterName REQUEST)
       = Some (Counter (new_instrument ''memobase_server_requests_total'' ''1''
            ''Total number of requests to the memobase server''))
   \<and> meter (TelemetryManager_init None None :: int TelemetryManager) = None
   \<and> setup_metrics (TelemetryManager_init None None :: int TelemetryManager)
       = (Raised (RuntimeError ''Call setup_telemetry() before setup_metrics()''),
          TelemetryManager_init None None)"
proof -
  let ?m = "sample_manager histogram_failing_meter :: int TelemetryManager"
  let ?mt = "histogram_failing_meter :: int Meter"
  let ?init = "TelemetryManager_init None None :: int TelemetryManager"
  let ?new = "Counter (new_instrument ''memobase_server_requests_total'' ''1''
                ''Total number of requests to the memobase server'') :: int instrument"
  have run: "setup_metrics ?m
     = (Raised (OtherError ''create_histogram failed''), snd (setup_metrics ?m))"
    using failing_run [where ?'a = int] by (simp add: prod_eq_iff)
  have mt: "meter ?m = Some ?mt" and before: "metrics ?m (CounterName REQUEST) = None"
    by (simp_all add: sample_manager_def TelemetryManager_init_def)
  have first: "catalog ! 0 = CounterName REQUEST"
    by (simp add: catalog_def CounterMetricName_members_def)
  have created: "create_instrument ?mt (CounterName REQUEST) = Inr ?new"
    by (simp add: histogram_failing_meter_def new_instrument_def
        CounterMetricName_get_description_def CounterMetricName_descriptions_def
        CounterMetricName_get_metric_name_def)
  from setup_metrics_no_rollback [OF run] mt
  obtain n where stored: "\<forall>i<n. \<exists>ins. create_instrument ?mt (catalog ! i) = Inr ins
                                 \<and> metrics (snd (setup_metrics ?m)) (catalog ! i) = Some ins"
    and result: "if n = length catalog
                 then Raised (OtherError ''create_histogram failed'') = Returned
                 else \<exists>e. create_instrument ?mt (catalog ! n) = Inl e
                          \<and> Raised (OtherError ''create_histogram failed'') = Raised e"
    by blast
  have "n \<noteq> 0"
  proof
    assume "n = 0"
    with result first created show False
      by (simp add: catalog_def CounterMetricName_members_def)
  qed
  with stored first created
  have after: "metrics (snd (setup_metrics ?m)) (CounterName REQUEST) = Some ?new"
    by (metis gr0I sum.inject(2))
  have unset: "meter ?init = None"
    by (simp add: TelemetryManager_init_def)
  from setup_metrics_no_rollback
    [of ?init "fst (setup_metrics ?init)" "snd (setup_metrics ?init)"] unset
  have "setup_metrics ?init
          = (Raised (RuntimeError ''Call setup_telemetry() before setup_metrics()''), ?init)"
    by (simp add: prod_eq_iff)
  with run mt before after unset show ?thesis by simp
qed

section \<open>Properties of the record operations\<close>

text \<open>
  Claim C9. For every manager and every identity absent from the registry, each of the
  three record operations raises \<^verbatim>\<open>KeyError\<close> with the message
  \<^verbatim>\<open>Metric <identity> not initialized\<close> and leaves the manager (registry, meter handle,
  service name, port) exactly as before.
\<close>

theorem record_absent_metric:
  "metrics self metric = None \<Longrightarrow>
     increment_counter_metric self metric v attrs
       = (Raised (KeyError (''Metric '' @ MetricName_str metric @ '' not initialized'')), self)
   \<and> record_histogram_metric self metric v attrs
       = (Raised (KeyError (''Metric '' @ MetricName_str metric @ '' not initialized'')), self)
   \<and> set_gauge_metric self metric v attrs
       = (Raised (KeyError (''Metric '' @ MetricName_str metric @ '' not initialized'')), self)"
  by (simp add: increment_counter_metric_def record_histogram_metric_def set_gauge_metric_def)

theorem record_absent_metric_witness:
  "metrics (TelemetryManager_init None None :: int TelemetryManager) (CounterName REQUEST) = None
   \<and> increment_counter_metric (TelemetryManager_init None None :: int TelemetryManager)
        (CounterName REQUEST) 1 None
       = (Raised (KeyError ''Metric CounterMetricName.REQUEST not initialized''),
          TelemetryManager_init None None)
   \<and> record_histogram_metric (TelemetryManager_init None None :: int TelemetryManager)
        (CounterName REQUEST) 1 None
       = (Raised (KeyError ''Metric CounterMetricName.REQUEST not initialized''),
          TelemetryManager_init None None)
   \<and> set_gauge_metric (TelemetryManager_init None None :: int TelemetryManager)
        (CounterName REQUEST) 1 None
       = (Raised (KeyError ''Metric CounterMetricName.REQUEST not initialized''),
          TelemetryManager_init None None)"
proof -
  have absent: "metrics (TelemetryManager_init None None :: int TelemetryManager)
                  (CounterName REQUEST) = None"
    by (simp add: TelemetryManager_init_def)
  from record_absent_metric [OF absent, of 1 None] absent show ?thesis
    by (simp add: CounterMetricName_str_def)
qed

text \<open>
  Against claim C2 as stated: after a successful \<^verbatim>\<open>setup_metrics\<close> the registry
  holds all three kinds under one mapping, so a histogram identity passes the membership
  test of \<^verbatim>\<open>increment_counter_metric\<close>. The call fails on the histogram's missing
  \<^verbatim>\<open>add\<close> method, with \<^verbatim>\<open>AttributeError\<close> and not with the \<^verbatim>\<open>KeyError\<close> raised
  for an unknown metric.
\<close>

theorem wrong_kind_is_attribute_error:
  "fst (increment_counter_metric
          (snd (setup_metrics (sample_manager plain_meter :: int TelemetryManager)))
          (HistogramName LLM_LATENCY_MS) 1 None)
     = Raised (AttributeError ''add'')
   \<and> fst (increment_counter_metric
          (snd (setup_metrics (sample_manager plain_meter :: int TelemetryManager)))
          (HistogramName LLM_LATENCY_MS) 1 None)
     \<noteq> Raised (KeyError ''Metric HistogramMetricName.LLM_LATENCY_MS not initialized'')"
  by (simp add: eval_defs increment_counter_metric_def)

lemma add_wrong_kind:
  "instrument_kind ins \<noteq> CounterKind \<Longrightarrow> add ins v attrs = Inl (AttributeError ''add'')"
  by (cases ins) simp_all

lemma record_value_wrong_kind:
  "instrument_kind ins \<noteq> HistogramKind \<Longrightarrow> record_value ins v attrs = Inl (AttributeError ''record'')"
  by (cases ins) simp_all

lemma set_value_wrong_kind:
  "instrument_kind ins \<noteq> GaugeKind \<Longrightarrow> set_value ins v attrs = Inl (AttributeError ''set'')"
  by (cases ins) simp_all

lemma setup_metrics_Returned_kind:
  assumes "setup_metrics before = (Returned, self)"
  obtains ins where "metrics self k = Some ins" "instrument_kind ins = metric_kind k"
proof -
  from assms obtain mt where mt: "meter before = Some mt"
    by (cases "meter before") (simp_all add: setup_metrics_def)
  from setup_metrics_prefix [OF mt assms]
  have "extended_on (set catalog) before self" by auto
  with catalog_complete [of k] that show ?thesis by (auto simp: extended_on_def)
qed

lemma setup_metrics_all_registered:
  "setup_metrics before = (Returned, self) \<Longrightarrow> all_registered self"
  unfolding all_registered_def
  by (intro allI) (erule setup_metrics_Returned_kind, blast)

lemma extended_on_all_registered:
  "extended_on K s s' \<Longrightarrow> all_registered s \<Longrightarrow> all_registered s'"
  unfolding extended_on_def all_registered_def by metis

lemma setup_metrics_keeps_all_registered:
  assumes "all_registered self"
  shows "all_registered (snd (setup_metrics self))"
proof (cases "meter self")
  case None
  with assms show ?thesis by (simp add: setup_metrics_def)
next
  case (Some mt)
  from setup_metrics_prefix [OF Some, of "fst (setup_metrics self)" "snd (setup_metrics self)"]
  obtain n where "extended_on (set (take n catalog)) self (snd (setup_metrics self))"
    by auto
  from extended_on_all_registered [OF this assms] show ?thesis .
qed

lemma add_keeps_kind: "add ins v attrs = Inr ins' \<Longrightarrow> instrument_kind ins' = instrument_kind ins"
  by (cases ins) auto

lemma record_value_keeps_kind:
  "record_value ins v attrs = Inr ins' \<Longrightarrow> instrument_kind ins' = instrument_kind ins"
  by (cases ins) auto

lemma set_value_keeps_kind:
  "set_value ins v attrs = Inr ins' \<Longrightarrow> instrument_kind ins' = instrument_kind ins"
  by (cases ins) auto

lemma all_registered_update:
  "all_registered self \<Longrightarrow> instrument_kind ins = metric_kind k \<Longrightarrow>
   all_registered (self\<lparr>metrics := (metrics self)(k \<mapsto> ins)\<rparr>)"
  by (simp add: all_registered_def)

lemma all_registered_at:
  "all_registered self \<Longrightarrow> metrics self k = Some ins \<Longrightarrow> instrument_kind ins = metric_kind k"
  unfolding all_registered_def by (metis option.inject)

lemma increment_counter_metric_keeps_all_registered:
  assumes "all_registered self"
  shows "all_registered (snd (increment_counter_metric self metric v attrs))"
proof (cases "metrics self metric")
  case None
  with assms show ?thesis by (simp add: increment_counter_metric_def)
next
  case (Some ins)
  show ?thesis
  proof (cases "add ins v attrs")
    case (Inl e)
    with Some assms show ?thesis by (simp add: increment_counter_metric_def)
  next
    case (Inr ins')
    from add_keeps_kind [OF Inr] all_registered_at [OF assms Some]
    have "instrument_kind ins' = metric_kind metric" by simp
    from all_registered_update [OF assms this] Some Inr show ?thesis
      by (simp add: increment_counter_metric_def)
  qed
qed

lemma record_histogram_metric_keeps_all_registered:
  assumes "all_registered self"
  shows "all_registered (snd (record_histogram_metric self metric v attrs))"
proof (cases "metrics self metric")
  case None
  with assms show ?thesis by (simp add: record_histogram_metric_def)
next
  case (Some ins)
  show ?thesis
  proof (cases "record_value ins v attrs")
    case (Inl e)
    with Some assms show ?thesis by (simp add: record_histogram_metric_def)
  next
    case (Inr ins')
    from record_value_keeps_kind [OF Inr] all_registered_at [OF assms Some]
    have "instrument_kind ins' = metric_kind metric" by simp
    from all_registered_update [OF assms this] Some Inr show ?thesis
      by (simp add: record_histogram_metric_def)
  qed
qed

lemma set_gauge_metric_keeps_all_registered:
  assumes "all_registered self"
  shows "all_registered (snd (set_gauge_metric self metric v attrs))"
proof (cases "metrics self metric")
  case None
  with assms show ?thesis by (simp add: set_gauge_metric_def)
next
  case (Some ins)
  show ?thesis
  proof (cases "set_value ins v attrs")
    case (Inl e)
    with Some assms show ?thesis by (simp add: set_gauge_metric_def)
  next
    case (Inr ins')
    from set_value_keeps_kind [OF Inr] all_registered_at [OF assms Some]
    have "instrument_kind ins' = metric_kind metric" by simp
    from all_registered_update [OF assms this] Some Inr show ?thesis
      by (simp add: set_gauge_metric_def)
  qed
qed

lemma setup_telemetry_keeps_metrics:
  "metrics (fst (snd (setup_telemetry env self))) = metrics self"
  by (simp add: setup_telemetry_def Let_def split: option.splits exn.splits)

lemma do_call_keeps_all_registered:
  "all_registered self \<Longrightarrow> all_registered (do_call c self)"
proof (cases c)
  case (SetupTelemetry env)
  assume "all_registered self"
  with SetupTelemetry show ?thesis
    by (simp add: all_registered_def setup_telemetry_keeps_metrics)
qed (simp_all add: increment_counter_metric_keeps_all_registered
      record_histogram_metric_keeps_all_registered set_gauge_metric_keeps_all_registered
      setup_metrics_keeps_all_registered)

lemma fold_do_call_keeps_all_registered:
  "all_registered self \<Longrightarrow> all_registered (fold do_call calls self)"
  by (induction calls arbitrary: self) (simp_all add: do_call_keeps_all_registered)

lemma record_wrong_kind:
  assumes "metrics self metric = Some ins"
  shows "instrument_kind ins \<noteq> CounterKind \<Longrightarrow>
           increment_counter_metric self metric v attrs = (Raised (AttributeError ''add''), self)"
    and "instrument_kind ins \<noteq> HistogramKind \<Longrightarrow>
           record_histogram_metric self metric v attrs = (Raised (AttributeError ''record''), self)"
    and "instrument_kind ins \<noteq> GaugeKind \<Longrightarrow>
           set_gauge_metric self metric v attrs = (Raised (AttributeError ''set''), self)"
  using assms
  by (simp_all add: increment_counter_metric_def record_histogram_metric_def set_gauge_metric_def
      add_wrong_kind record_value_wrong_kind set_value_wrong_kind)

text \<open>
  Claim C2, amended. Before \<^verbatim>\<open>setup_metrics\<close> has run (the registry is empty) every
  record operation raises \<^verbatim>\<open>KeyError\<close> with the message
  \<^verbatim>\<open>Metric <identity> not initialized\<close>. After a successful \<^verbatim>\<open>setup_metrics\<close>, and
  after any sequence of further calls on the manager, a record operation called with an
  identity whose kind does not match it raises \<^verbatim>\<open>AttributeError\<close> for the method the
  instrument lacks (\<^verbatim>\<open>add\<close>, \<^verbatim>\<open>record\<close> or \<^verbatim>\<open>set\<close>); the same holds in any
  state whose registry holds, at the identity, an instrument of another kind than the
  operation's. In all these cases the manager, and with it every instrument, is unchanged.
\<close>

theorem record_failures_after_setup:
  "(metrics fresh = Map.empty \<longrightarrow>
      increment_counter_metric fresh metric v attrs
        = (Raised (KeyError (''Metric '' @ MetricName_str metric @ '' not initialized'')), fresh)
      \<and> record_histogram_metric fresh metric v attrs
        = (Raised (KeyError (''Metric '' @ MetricName_str metric @ '' not initialized'')), fresh)
      \<and> set_gauge_metric fresh metric v attrs
        = (Raised (KeyError (''Metric '' @ MetricName_str metric @ '' not initialized'')), fresh))
   \<and> (setup_metrics before = (Returned, ready) \<and> self = fold do_call calls ready \<longrightarrow>
        (metric_kind metric \<noteq> CounterKind \<longrightarrow>
           increment_counter_metric self metric v attrs = (Raised (AttributeError ''add''), self))
        \<and> (metric_kind metric \<noteq> HistogramKind \<longrightarrow>
           record_histogram_metric self metric v attrs
             = (Raised (AttributeError ''record''), self))
        \<and> (metric_kind metric \<noteq> GaugeKind \<longrightarrow>
           set_gauge_metric self metric v attrs = (Raised (AttributeError ''set''), self)))
   \<and> (metrics self' metric = Some ins \<longrightarrow>
        (instrument_kind ins \<noteq> CounterKind \<longrightarrow>
           increment_counter_metric self' metric v attrs = (Raised (AttributeError ''add''), self'))
        \<and> (instrument_kind ins \<noteq> HistogramKind \<longrightarrow>
           record_histogram_metric self' metric v attrs
             = (Raised (AttributeError ''record''), self'))
        \<and> (instrument_kind ins \<noteq> GaugeKind \<longrightarrow>
           set_gauge_metric self' metric v attrs = (Raised (AttributeError ''set''), self')))"
proof -
  have a: "metrics fresh = Map.empty \<longrightarrow>
      increment_counter_metric fresh metric v attrs
        = (Raised (KeyError (''Metric '' @ MetricName_str metric @ '' not initialized'')), fresh)
      \<and> record_histogram_metric fresh metric v attrs
        = (Raised (KeyError (''Metric '' @ MetricName_str metric @ '' not initialized'')), fresh)
      \<and> set_gauge_metric fresh metric v attrs
        = (Raised (KeyError (''Metric '' @ MetricName_str metric @ '' not initialized'')), fresh)"
    by (simp add: increment_counter_metric_def record_histogram_metric_def set_gauge_metric_def)
  have b: "(metric_kind metric \<noteq> CounterKind \<longrightarrow>
           increment_counter_metric self metric v attrs = (Raised (AttributeError ''add''), self))
        \<and> (metric_kind metric \<noteq> HistogramKind \<longrightarrow>
           record_histogram_metric self metric v attrs
             = (Raised (AttributeError ''record''), self))
        \<and> (metric_kind metric \<noteq> GaugeKind \<longrightarrow>
           set_gauge_metric self metric v attrs = (Raised (AttributeError ''set''), self))"
    if run: "setup_metrics before = (Returned, ready)" and self: "self = fold do_call calls ready"
  proof -
    from setup_metrics_all_registered [OF run] have "all_registered ready" .
    from fold_do_call_keeps_all_registered [OF this, of calls] self
    have "all_registered self" by simp
    then obtain i where i: "metrics self metric = Some i" "instrument_kind i = metric_kind metric"
      unfolding all_registered_def by blast
    from record_wrong_kind [OF i(1), of v attrs] i(2) show ?thesis by simp
  qed
  have c: "metrics self' metric = Some ins \<longrightarrow>
        (instrument_kind ins \<noteq> CounterKind \<longrightarrow>
           increment_counter_metric self' metric v attrs = (Raised (AttributeError ''add''), self'))
        \<and> (instrument_kind ins \<noteq> HistogramKind \<longrightarrow>
           record_histogram_metric self' metric v attrs
             = (Raised (AttributeError ''record''), self'))
        \<and> (instrument_kind ins \<noteq> GaugeKind \<longrightarrow>
           set_gauge_metric self' metric v attrs = (Raised (AttributeError ''set''), self'))"
    using record_wrong_kind [of self' metric ins v attrs] by blast
  from a b c show ?thesis by blast
qed

theorem record_failures_after_setup_witness:
  "metrics (TelemetryManager_init None None :: int TelemetryManager) = Map.empty
   \<and> increment_counter_metric (TelemetryManager_init None None :: int TelemetryManager)
        (CounterName REQUEST) 1 None
       = (Raised (KeyError ''Metric CounterMetricName.REQUEST not initialized''),
          TelemetryManager_init None None)
   \<and> setup_metrics (sample_manager plain_meter :: int TelemetryManager)
       = (Returned, snd (setup_metrics (sample_manager plain_meter)))
   \<and> metrics (fold do_call [IncrementCounter (CounterName REQUEST) 1 None]
         (snd (setup_metrics (sample_manager plain_meter :: int TelemetryManager))))
         (CounterName REQUEST)
       = Some (Counter (observe 1 None (new_instrument ''memobase_server_requests_total'' ''1''
            ''Total number of requests to the memobase server'')))
   \<and> metric_kind (HistogramName LLM_LATENCY_MS) \<noteq> CounterKind
   \<and> increment_counter_metric
         (fold do_call [IncrementCounter (CounterName REQUEST) 1 None]
           (snd (setup_metrics (sample_manager plain_meter :: int TelemetryManager))))
         (HistogramName LLM_LATENCY_MS) 1 None
       = (Raised (AttributeError ''add''),
          fold do_call [IncrementCounter (CounterName REQUEST) 1 None]
            (snd (setup_metrics (sample_manager plain_meter))))
   \<and> metric_kind (GaugeName INPUT_TOKEN_COUNT) \<noteq> HistogramKind
   \<and> record_histogram_metric
         (fold do_call [IncrementCounter (CounterName REQUEST) 1 None]
           (snd (setup_metrics (sample_manager plain_meter :: int TelemetryManager))))
         (GaugeName INPUT_TOKEN_COUNT) 1 None
       = (Raised (AttributeError ''record''),
          fold do_call [IncrementCounter (CounterName REQUEST) 1 None]
            (snd (setup_metrics (sample_manager plain_meter))))
   \<and> metric_kind (CounterName REQUEST) \<noteq> GaugeKind
   \<and> set_gauge_metric
         (fold do_call [IncrementCounter (CounterName REQUEST) 1 None]
           (snd (setup_metrics (sample_manager plain_meter :: int TelemetryManager))))
         (CounterName REQUEST) 1 None
       = (Raised (AttributeError ''set''),
          fold do_call [IncrementCounter (CounterName REQUEST) 1 None]
            (snd (setup_metrics (sample_manager plain_meter))))
   \<and> metrics ((TelemetryManager_init None None :: int TelemetryManager)
         \<lparr>metrics := [CounterName REQUEST \<mapsto> Gauge (new_instrument ''g'' ''1'' ''d'')]\<rparr>)
         (CounterName REQUEST)
       = Some (Gauge (new_instrument ''g'' ''1'' ''d''))
   \<and> instrument_kind (Gauge (new_instrument ''g'' ''1'' ''d'') :: int instrument) \<noteq> CounterKind
   \<and> increment_counter_metric
         ((TelemetryManager_init None None :: int TelemetryManager)
           \<lparr>metrics := [CounterName REQUEST \<mapsto> Gauge (new_instrument ''g'' ''1'' ''d'')]\<rparr>)
         (CounterName REQUEST) 1 None
       = (Raised (AttributeError ''add''),
          (TelemetryManager_init None None)
           \<lparr>metrics := [CounterName REQUEST \<mapsto> Gauge (new_instrument ''g'' ''1'' ''d'')]\<rparr>)"
proof -
  let ?init = "TelemetryManager_init None None :: int TelemetryManager"
  let ?m = "sample_manager plain_meter :: int TelemetryManager"
  let ?ready = "snd (setup_metrics ?m)"
  let ?calls = "[IncrementCounter (CounterName REQUEST) 1 None] :: int call list"
  let ?self = "fold do_call ?calls ?ready"
  let ?odd = "?init\<lparr>metrics := [CounterName REQUEST \<mapsto> Gauge (new_instrument ''g'' ''1'' ''d'')]\<rparr>"
  have empty: "metrics ?init = Map.empty"
    by (simp add: TelemetryManager_init_def)
  have run: "setup_metrics ?m = (Returned, ?ready)"
    using plain_run [where ?'a = int] by (simp add: prod_eq_iff)
  have moved: "metrics ?self (CounterName REQUEST)
      = Some (Counter (observe 1 None (new_instrument ''memobase_server_requests_total'' ''1''
            ''Total number of requests to the memobase server'')))"
    by (simp add: eval_defs increment_counter_metric_def)
  have odd: "metrics ?odd (CounterName REQUEST) = Some (Gauge (new_instrument ''g'' ''1'' ''d''))"
    by simp
  note inst = record_failures_after_setup [where before = ?m and ready = ?ready and calls = ?calls
      and self = ?self and fresh = ?init and v = 1 and attrs = None and self' = ?odd
      and ins = "Gauge (new_instrument ''g'' ''1'' ''d'')"]
  from inst [where metric = "CounterName REQUEST"] empty run odd
  have a: "increment_counter_metric ?init (CounterName REQUEST) 1 None
             = (Raised (KeyError ''Metric CounterMetricName.REQUEST not initialized''), ?init)"
    and d: "set_gauge_metric ?self (CounterName REQUEST) 1 None
             = (Raised (AttributeError ''set''), ?self)"
    and e: "increment_counter_metric ?odd (CounterName REQUEST) 1 None
             = (Raised (AttributeError ''add''), ?odd)"
    by (simp_all add: CounterMetricName_str_def)
  from inst [where metric = "HistogramName LLM_LATENCY_MS"] run
  have b: "increment_counter_metric ?self (HistogramName LLM_LATENCY_MS) 1 None
             = (Raised (AttributeError ''add''), ?self)"
    by simp
  from inst [where metric = "GaugeName INPUT_TOKEN_COUNT"] run
  have c: "record_histogram_metric ?self (GaugeName INPUT_TOKEN_COUNT) 1 None
             = (Raised (AttributeError ''record''), ?self)"
    by simp
  from empty run moved a b c d e odd show ?thesis by simp
qed

section \<open>Properties of the module body\<close>

text \<open>
  Claim C10. Importing the module constructs the manager with the default service name
  \<^verbatim>\<open>memobase-server\<close> and the default port 9464 and runs \<^verbatim>\<open>setup_telemetry\<close>
  and then \<^verbatim>\<open>setup_metrics\<close> on it: when the import completes, both calls have
  returned, the provider was installed and the server started with the defaults, and
  the registry of the resulting manager holds an instrument of the matching kind for every
  catalog identity.
\<close>

theorem import_populates_registry:
  assumes "telemetry_manager env = (Returned, tm, evs)"
  shows "(\<exists>tm1. setup_telemetry env (TelemetryManager_init None None) = (Returned, tm1, evs)
                \<and> setup_metrics tm1 = (Returned, tm))
         \<and> service_name tm = ''memobase-server'' \<and> prometheus_port tm = 9464
         \<and> meter tm = Some (get_meter env ''memobase-server'')
         \<and> (\<exists>ins. metrics tm k = Some ins \<and> instrument_kind ins = metric_kind k)
         \<and> take 2 evs = [SetMeterProvider ''memobase-server'', StartHttpServer 9464]"
proof -
  let ?init = "TelemetryManager_init None None :: 'a TelemetryManager"
  obtain o1 tm1 evs1 where t: "setup_telemetry env ?init = (o1, tm1, evs1)"
    by (cases "setup_telemetry env ?init")
  from assms t have o1: "o1 = Returned"
    by (cases o1) (simp_all add: telemetry_manager_def)
  with assms t have m: "setup_metrics tm1 = (Returned, tm)" and evs: "evs1 = evs"
    by (auto simp: telemetry_manager_def split: prod.splits)
  from setup_telemetry_Returned [OF t [unfolded o1]]
  have tm1: "tm1 = ?init\<lparr>meter := Some (get_meter env (service_name ?init))\<rparr>"
    and ev2: "take 2 evs1 = [SetMeterProvider (service_name ?init), StartHttpServer (prometheus_port ?init)]"
    by simp_all
  from m obtain mt where "meter tm1 = Some mt"
    by (cases "meter tm1") (simp_all add: setup_metrics_def)
  from setup_metrics_prefix [OF this m]
  have ext: "extended_on (set catalog) tm1 tm" by auto
  have "\<exists>ins. metrics tm k = Some ins \<and> instrument_kind ins = metric_kind k"
    using ext catalog_complete [of k] by (simp add: extended_on_def)
  moreover from ext tm1 have "service_name tm = ''memobase-server''" "prometheus_port tm = 9464"
    "meter tm = Some (get_meter env ''memobase-server'')"
    by (simp_all add: extended_on_def TelemetryManager_init_def)
  moreover from ev2 evs have "take 2 evs = [SetMeterProvider ''memobase-server'', StartHttpServer 9464]"
    by (simp add: TelemetryManager_init_def)
  ultimately show ?thesis using t o1 evs m by simp
qed

lemma quiet_import: "fst (telemetry_manager quiet_environment) = Returned"
  by (simp add: telemetry_manager_def setup_telemetry_def quiet_environment_def eval_defs)

lemma quiet_import_events:
  "snd (snd (telemetry_manager quiet_environment))
     = [SetMeterProvider ''memobase-server'', StartHttpServer 9464]"
  by (simp add: telemetry_manager_def setup_telemetry_def quiet_environment_def eval_defs)

theorem import_populates_registry_witness:
  "telemetry_manager (quiet_environment :: int environment)
     = (Returned, fst (snd (telemetry_manager quiet_environment)),
        [SetMeterProvider ''memobase-server'', StartHttpServer 9464])
   \<and> service_name (fst (snd (telemetry_manager (quiet_environment :: int environment))))
       = ''memobase-server''
   \<and> prometheus_port (fst (snd (telemetry_manager (quiet_environment :: int environment)))) = 9464
   \<and> (\<forall>k. \<exists>ins. metrics (fst (snd (telemetry_manager (quiet_environment :: int environment)))) k
                    = Some ins
                 \<and> instrument_kind ins = metric_kind k)"
proof -
  let ?r = "telemetry_manager (quiet_environment :: int environment)"
  have run: "?r = (Returned, fst (snd ?r), [SetMeterProvider ''memobase-server'', StartHttpServer 9464])"
    using quiet_import [where ?'a = int] quiet_import_events [where ?'a = int]
    by (simp add: prod_eq_iff)
  from import_populates_registry [OF run] run show ?thesis by simp
qed

end
